theory Spec2Isabelle
  imports Complex_Main
begin

section \<open>Strings\<close>

text \<open>
  Python strings are modelled as \<^typ>\<open>string\<close>. \<open>str.lower\<close> and \<open>str.upper\<close> are
  modelled on the ASCII letters; every other character is left as it is.
\<close>

definition lower_char :: "char \<Rightarrow> char" where
  "lower_char c = (let n = (of_char c :: nat) in
     if 65 \<le> n \<and> n \<le> 90 then char_of (n + 32) else c)"

definition upper_char :: "char \<Rightarrow> char" where
  "upper_char c = (let n = (of_char c :: nat) in
     if 97 \<le> n \<and> n \<le> 122 then char_of (n - 32) else c)"

definition lower :: "string \<Rightarrow> string" where
  "lower s = map lower_char s"

definition upper :: "string \<Rightarrow> string" where
  "upper s = map upper_char s"

definition endswith :: "string \<Rightarrow> string \<Rightarrow> bool" where
  "endswith s suffix =
     (length suffix \<le> length s \<and> drop (length s - length suffix) s = suffix)"

section \<open>Errors\<close>

text \<open>
  Every \<open>raise\<close> of the source is a constructor; \<open>LibraryError\<close> stands for any other
  exception that comes out of the imaging library or the operating system.
\<close>

datatype error =
    UnknownSizeKey string "string list"
  | FileNotFound string
  | GhostscriptNotFound
  | PageRasterizationFailed string string
  | InkscapeNotFound
  | InkscapeFailed string string
  | RawDecodeFailed string string
  | VectorRasterizationFailed string
  | UnsupportedFormat string
  | ZeroDivisionError
  | LibraryError

section \<open>Size dictionaries in mm\<close>

text \<open>
  A size dictionary is a Python object: it has an identity (what \<open>is\<close> compares) and
  its items, in insertion order. The five module-level dictionaries are five distinct
  objects.
\<close>

record size_dict =
  obj_id :: nat
  items :: "(string \<times> (rat \<times> rat)) list"

definition A_SIZES_MM :: size_dict where
  "A_SIZES_MM = \<lparr>obj_id = 0, items =
     [(''A1'', (594, 841)), (''A2'', (420, 594)), (''A3'', (297, 420)), (''A4'', (210, 297))]\<rparr>"

definition TWO_PER_THREE_SIZES_MM :: size_dict where
  "TWO_PER_THREE_SIZES_MM = \<lparr>obj_id = 1, items =
     [(''24X36'', (610, 910)), (''20X30'', (510, 760)), (''16X24'', (410, 610)),
      (''12X18'', (300, 460)), (''8X12'', (200, 300))]\<rparr>"

definition FOUR_PER_FIVE_SIZES_MM :: size_dict where
  "FOUR_PER_FIVE_SIZES_MM = \<lparr>obj_id = 2, items =
     [(''24X30'', (600, 760)), (''20X25'', (510, 630)), (''16X20'', (400, 500)),
      (''12X15'', (300, 380)), (''8X10'', (200, 250))]\<rparr>"

definition THREE_PER_FOUR_SIZES_MM :: size_dict where
  "THREE_PER_FOUR_SIZES_MM = \<lparr>obj_id = 3, items =
     [(''18X24'', (460, 610)), (''15X20'', (380, 510)), (''12X16'', (300, 400)),
      (''9X12'', (230, 300))]\<rparr>"

definition ELEVEN_X_FOURTEEN_SIZES_MM :: size_dict where
  "ELEVEN_X_FOURTEEN_SIZES_MM = \<lparr>obj_id = 4, items = [(''11X14'', (280, 360))]\<rparr>"

definition is_obj :: "size_dict \<Rightarrow> size_dict \<Rightarrow> bool" where
  "is_obj a b = (obj_id a = obj_id b)"

section \<open>mm to px helpers\<close>

text \<open>
  Python's \<open>round\<close> on a float rounds to the nearest integer, ties to the even one.
  Float arithmetic is modelled by exact rational arithmetic.
\<close>

definition py_round :: "rat \<Rightarrow> int" where
  "py_round x = (let f = \<lfloor>x\<rfloor>; d = x - of_int f in
     if d < 1 / 2 then f else if 1 / 2 < d then f + 1 else if even f then f else f + 1)"

definition mm_to_px :: "rat \<Rightarrow> rat \<Rightarrow> int" where
  "mm_to_px mm dpi = (let inches = mm / (254 / 10) in py_round (inches * dpi))"

definition paper_size_px :: "string \<Rightarrow> rat \<Rightarrow> string \<Rightarrow> size_dict \<Rightarrow> error + (int \<times> int)" where
  "paper_size_px size_key dpi landscape sizes_mm =
     (let key = upper size_key in
      case map_of (items sizes_mm) key of
        None \<Rightarrow> Inl (UnknownSizeKey size_key (map fst (items sizes_mm)))
      | Some (w_mm, h_mm) \<Rightarrow>
          if lower landscape \<in> set [''horizontal'', ''landscape'', ''h'']
          then Inr (mm_to_px h_mm dpi, mm_to_px w_mm dpi)
          else Inr (mm_to_px w_mm dpi, mm_to_px h_mm dpi))"

section \<open>Extensions\<close>

definition RAW_EXTS :: "string set" where
  "RAW_EXTS = set [''.cr2'', ''.cr3'', ''.nef'', ''.arw'', ''.dng'', ''.rw2'', ''.orf'',
     ''.raf'', ''.pef'']"

definition VECTOR_EXTS :: "string set" where
  "VECTOR_EXTS = set [''.svg'']"

definition PS_PDF_EXTS :: "string set" where
  "PS_PDF_EXTS = set [''.eps'', ''.ps'', ''.ai'', ''.pdf'']"

text \<open>
  \<open>os.path.splitext(p)[1]\<close> with \<open>/\<close> as the separator: the extension starts at the
  last dot of the last path component, leading dots of that component not counted.
\<close>

definition splitext_ext :: "string \<Rightarrow> string" where
  "splitext_ext p =
     (let base = rev (takeWhile (\<lambda>c. c \<noteq> CHR ''/'') (rev p));
          rest = dropWhile (\<lambda>c. c = CHR ''.'') base;
          suffix = takeWhile (\<lambda>c. c \<noteq> CHR ''.'') (rev rest)
      in if length suffix = length rest then [] else CHR ''.'' # rev suffix)"

section \<open>Images\<close>

text \<open>
  An image of the imaging library: its mode, its size, its pixels, the colour key of a
  \<open>transparency\<close> entry of \<open>info\<close> (modes without an alpha band), the EXIF
  orientation tag (0 when absent), whether its pixel data can be decoded (opening a file
  is lazy, the first operation on the pixels loads them and may raise), and the
  \<open>_temp_raster_path\<close> attribute the rasterizers attach. A pixel is stored as
  (r, g, b, a), channels in 0..255; grey modes keep r = g = b, and the a component
  only counts in the modes with an alpha band. Palette images are not modelled.
\<close>

datatype mode = L | LA | RGB | RGBA

type_synonym rgb = "nat \<times> nat \<times> nat"
type_synonym rgba = "nat \<times> nat \<times> nat \<times> nat"
type_synonym box = "nat \<times> nat \<times> nat \<times> nat"

record image =
  mode :: mode
  width :: nat
  height :: nat
  px :: "nat \<Rightarrow> nat \<Rightarrow> rgba"
  transparency :: "rgb option"
  exif_orientation :: nat
  loadable :: bool
  temp_raster_path :: "string option"

text \<open>
  The decoders give a \<open>transparency\<close> entry only to images in a mode without an alpha
  band: an image with an alpha band has no colour key.
\<close>

definition well_formed :: "image \<Rightarrow> bool" where
  "well_formed im = (if mode im = LA \<or> mode im = RGBA then transparency im = None else True)"

definition rgb_at :: "image \<Rightarrow> nat \<Rightarrow> nat \<Rightarrow> rgb" where
  "rgb_at im x y = (case px im x y of (r, g, b, a) \<Rightarrow> (r, g, b))"

text \<open>The alpha value a pixel has after \<open>convert("RGBA")\<close>.\<close>

definition alpha_at :: "image \<Rightarrow> nat \<Rightarrow> nat \<Rightarrow> nat" where
  "alpha_at im x y =
     (case px im x y of (r, g, b, a) \<Rightarrow>
        if mode im = RGBA \<or> mode im = LA then a
        else if transparency im = Some (r, g, b) then 0 else 255)"

definition rgba_at :: "image \<Rightarrow> nat \<Rightarrow> nat \<Rightarrow> rgba" where
  "rgba_at im x y = (case rgb_at im x y of (r, g, b) \<Rightarrow> (r, g, b, alpha_at im x y))"

definition pixels :: "image \<Rightarrow> rgba list list" where
  "pixels im = map (\<lambda>y. map (\<lambda>x. rgba_at im x y) [0..<width im]) [0..<height im]"

definition im_size :: "image \<Rightarrow> nat \<times> nat" where
  "im_size im = (width im, height im)"

text \<open>\<open>Image.copy\<close>: a new object with the pixels loaded and no extra attribute.\<close>

definition copy :: "image \<Rightarrow> error + image" where
  "copy im = (if loadable im then Inr (im\<lparr>temp_raster_path := None\<rparr>) else Inl LibraryError)"

definition convert_RGBA :: "image \<Rightarrow> error + image" where
  "convert_RGBA im =
     (if \<not> loadable im then Inl LibraryError
      else if mode im = RGBA then copy im
      else Inr (im\<lparr>mode := RGBA, px := rgba_at im, transparency := None,
                   temp_raster_path := None\<rparr>))"

definition convert_RGB :: "image \<Rightarrow> error + image" where
  "convert_RGB im =
     (if \<not> loadable im then Inl LibraryError
      else if mode im = RGB then copy im
      else Inr (im\<lparr>mode := RGB,
                   px := (\<lambda>x y. case rgb_at im x y of (r, g, b) \<Rightarrow> (r, g, b, 255)),
                   temp_raster_path := None\<rparr>))"

text \<open>\<open>Image.new(mode, size, color)\<close>; a negative size raises.\<close>

definition new_image :: "mode \<Rightarrow> int \<Rightarrow> int \<Rightarrow> rgba \<Rightarrow> error + image" where
  "new_image m w h color =
     (if w < 0 \<or> h < 0 then Inl LibraryError
      else Inr \<lparr>mode = m, width = nat w, height = nat h, px = (\<lambda>x y. color),
                transparency = None, exif_orientation = 0, loadable = True,
                temp_raster_path = None\<rparr>)"

text \<open>
  \<open>getbbox\<close> of a band: the bounding box (left, upper, right, lower) of the non-zero
  pixels, \<open>None\<close> when there are none. The band is given by the predicate that says
  where it is non-zero.
\<close>

definition getbbox :: "nat \<Rightarrow> nat \<Rightarrow> (nat \<Rightarrow> nat \<Rightarrow> bool) \<Rightarrow> box option" where
  "getbbox w h nz =
     (let xs = filter (\<lambda>x. list_ex (\<lambda>y. nz x y) [0..<h]) [0..<w];
          ys = filter (\<lambda>y. list_ex (\<lambda>x. nz x y) [0..<w]) [0..<h]
      in if xs = [] \<or> ys = [] then None
         else Some (Min (set xs), Min (set ys), Suc (Max (set xs)), Suc (Max (set ys))))"

text \<open>
  \<open>Image.crop(box)\<close>, for a box inside the image (the only boxes the program passes
  are bounding boxes of the image itself).
\<close>

definition crop :: "image \<Rightarrow> box \<Rightarrow> error + image" where
  "crop im bx =
     (case bx of (l, u, r, b) \<Rightarrow>
        if \<not> loadable im then Inl LibraryError
        else Inr (im\<lparr>width := r - l, height := b - u,
                     px := (\<lambda>x y. px im (x + l) (y + u)),
                     temp_raster_path := None\<rparr>))"

text \<open>
  \<open>Image.paste(src, (x, y))\<close> without a mask: the pixels of the source replace those of
  the region, converted to the mode of the destination; what falls outside is clipped.
\<close>

definition paste :: "image \<Rightarrow> image \<Rightarrow> int \<Rightarrow> int \<Rightarrow> image" where
  "paste out src x0 y0 =
     out\<lparr>px := (\<lambda>x y.
        if x0 \<le> int x \<and> int x < x0 + int (width src) \<and>
           y0 \<le> int y \<and> int y < y0 + int (height src)
        then (case rgba_at src (nat (int x - x0)) (nat (int y - y0)) of (r, g, b, a) \<Rightarrow>
                if mode out = RGBA \<or> mode out = LA then (r, g, b, a) else (r, g, b, 255))
        else px out x y)\<rparr>"

text \<open>
  \<open>ImageOps.exif_transpose\<close>: the transposition the EXIF orientation tag asks for, or
  a copy.
\<close>

definition exif_transpose :: "image \<Rightarrow> error + image" where
  "exif_transpose im =
     (if \<not> loadable im then Inl LibraryError
      else let w = width im; h = height im; p = px im; tag = exif_orientation im;
               same = im\<lparr>exif_orientation := 0, temp_raster_path := None\<rparr>;
               turned = same\<lparr>width := h, height := w\<rparr>
           in Inr (
             if tag = 2 then same\<lparr>px := (\<lambda>x y. p (w - 1 - x) y)\<rparr>
             else if tag = 3 then same\<lparr>px := (\<lambda>x y. p (w - 1 - x) (h - 1 - y))\<rparr>
             else if tag = 4 then same\<lparr>px := (\<lambda>x y. p x (h - 1 - y))\<rparr>
             else if tag = 5 then turned\<lparr>px := (\<lambda>x y. p y x)\<rparr>
             else if tag = 6 then turned\<lparr>px := (\<lambda>x y. p y (h - 1 - x))\<rparr>
             else if tag = 7 then turned\<lparr>px := (\<lambda>x y. p (w - 1 - y) (h - 1 - x))\<rparr>
             else if tag = 8 then turned\<lparr>px := (\<lambda>x y. p (w - 1 - y) x)\<rparr>
             else im\<lparr>temp_raster_path := None\<rparr>))"

section \<open>The outside world\<close>

text \<open>
  What the program asks of the operating system and of its libraries is a parameter of
  the model: the path functions, the search for executables, the name of the temporary
  file, the run of an external process, the decoders, the resampling filters, the
  blending of a pixel over a background, and whether a file can be removed or saved.
  An argument of a command line is a literal or a formatted number.
\<close>

datatype arg = Lit string | Fmt string rat

datatype proc_result = Exited0 | CalledProcessError string | SpawnError

record env =
  os_path_isabs :: "string \<Rightarrow> bool"
  os_path_abspath :: "string \<Rightarrow> string"
  os_path_exists :: "string \<Rightarrow> bool"
  script_dir_join :: "string \<Rightarrow> string option"
  shutil_which :: "string \<Rightarrow> string option"
  environ_INKSCAPE_EXE :: "string option"
  tempfile_name :: string
  subprocess_run :: "arg list \<Rightarrow> proc_result"
  Image_open :: "string \<Rightarrow> image option"
  rawpy_decode :: "string \<Rightarrow> string + image"
  cairosvg_svg2png :: "string \<Rightarrow> rat \<Rightarrow> image option"
  os_remove_ok :: "string \<Rightarrow> bool"
  lanczos :: "image \<Rightarrow> nat \<Rightarrow> nat \<Rightarrow> nat \<Rightarrow> nat \<Rightarrow> rgba"
  fit_lanczos :: "image \<Rightarrow> nat \<Rightarrow> nat \<Rightarrow> nat \<Rightarrow> nat \<Rightarrow> rgba"
  blend :: "nat \<Rightarrow> nat \<Rightarrow> nat \<Rightarrow> nat"
  save_ok :: "string \<Rightarrow> image \<Rightarrow> bool"

text \<open>
  The state the program changes: the temporary raster files on disk and the outputs
  saved (path, image, dpi).
\<close>

record world =
  temp_files :: "string list"
  saved :: "(string \<times> image \<times> rat) list"

text \<open>\<open>os.remove\<close> inside \<open>try ... except Exception: pass\<close>.\<close>

definition try_remove :: "env \<Rightarrow> world \<Rightarrow> string \<Rightarrow> world" where
  "try_remove e w p =
     (if os_remove_ok e p then w\<lparr>temp_files := removeAll p (temp_files w)\<rparr> else w)"

definition plain :: "image \<Rightarrow> image" where
  "plain im = im\<lparr>temp_raster_path := None\<rparr>"

text \<open>
  \<open>Image.resize(size, LANCZOS)\<close>: the mode stays, the pixels come from the filter; a
  size below 1 raises; the same size gives a copy.
\<close>

definition resize :: "env \<Rightarrow> image \<Rightarrow> int \<Rightarrow> int \<Rightarrow> error + image" where
  "resize e im w h =
     (if int (width im) = w \<and> int (height im) = h then copy im
      else if \<not> loadable im \<or> w < 1 \<or> h < 1 then Inl LibraryError
      else Inr (im\<lparr>width := nat w, height := nat h, px := lanczos e im (nat w) (nat h),
                   temp_raster_path := None\<rparr>))"

text \<open>
  \<open>ImageOps.fit(im, size, method=LANCZOS, centering=(0.5, 0.5))\<close>: both aspect ratios
  are computed first (a division), then the image is resized from its centred crop.
\<close>

definition ImageOps_fit :: "env \<Rightarrow> image \<Rightarrow> int \<Rightarrow> int \<Rightarrow> error + image" where
  "ImageOps_fit e im w h =
     (if height im = 0 \<or> h = 0 then Inl ZeroDivisionError
      else if \<not> loadable im \<or> w < 1 \<or> h < 1 then Inl LibraryError
      else Inr (im\<lparr>width := nat w, height := nat h, px := fit_lanczos e im (nat w) (nat h),
                   temp_raster_path := None\<rparr>))"

section \<open>Path resolver\<close>

definition resolve_path :: "env \<Rightarrow> string \<Rightarrow> string" where
  "resolve_path e path =
     (if os_path_isabs e path \<and> os_path_exists e path then path
      else let cwd_candidate = os_path_abspath e path in
        if os_path_exists e cwd_candidate then cwd_candidate
        else (case script_dir_join e path of
                None \<Rightarrow> cwd_candidate
              | Some script_candidate \<Rightarrow>
                  if os_path_exists e script_candidate then script_candidate
                  else cwd_candidate))"

section \<open>Auto-crop helpers\<close>

definition autocrop_white :: "image \<Rightarrow> rgb \<Rightarrow> error + image" where
  "autocrop_white im bg =
     (case (if mode im \<noteq> RGB then convert_RGB im else Inr im) of
        Inl err \<Rightarrow> Inl err
      | Inr im1 \<Rightarrow>
          if \<not> loadable im1 then Inl LibraryError
          else (case getbbox (width im1) (height im1) (\<lambda>x y. rgb_at im1 x y \<noteq> bg) of
                  Some bbox \<Rightarrow> crop im1 bbox
                | None \<Rightarrow> Inr im1))"

definition autocrop_auto :: "image \<Rightarrow> image" where
  "autocrop_auto im =
     (case (case convert_RGBA im of
              Inl err \<Rightarrow> None
            | Inr rgba \<Rightarrow>
                (case getbbox (width rgba) (height rgba) (\<lambda>x y. alpha_at rgba x y \<noteq> 0) of
                   None \<Rightarrow> None
                 | Some bbox \<Rightarrow> (case crop rgba bbox of Inl err \<Rightarrow> None | Inr c \<Rightarrow> Some c))) of
        Some c \<Rightarrow> c
      | None \<Rightarrow> (case autocrop_white im (255, 255, 255) of Inl err \<Rightarrow> im | Inr c \<Rightarrow> c))"

definition flatten_alpha_to_bg :: "env \<Rightarrow> image \<Rightarrow> rgb \<Rightarrow> error + image" where
  "flatten_alpha_to_bg e im bg_color =
     (if mode im \<noteq> RGBA then Inr im
      else if \<not> loadable im then Inl LibraryError
      else (case bg_color of (br, bg, bb) \<Rightarrow>
        Inr \<lparr>mode = RGB, width = width im, height = height im,
             px = (\<lambda>x y. case px im x y of (r, g, b, a) \<Rightarrow>
                     (blend e br r a, blend e bg g a, blend e bb b a, 255)),
             transparency = None, exif_orientation = 0, loadable = True,
             temp_raster_path = None\<rparr>))"

section \<open>Ghostscript helpers\<close>

definition find_gs_exe :: "env \<Rightarrow> string option" where
  "find_gs_exe e =
     (if shutil_which e ''gs'' \<noteq> None then Some ''gs''
      else if shutil_which e ''gswin64c'' \<noteq> None then Some ''gswin64c''
      else if shutil_which e ''gswin32c'' \<noteq> None then Some ''gswin32c''
      else None)"

text \<open>
  Only \<open>CalledProcessError\<close> is caught: any other exception of the \<open>try\<close> block (the
  process cannot be started, the file it wrote cannot be opened) leaves the function
  with the temporary file still on disk.
\<close>

definition rasterize_with_ghostscript ::
    "env \<Rightarrow> world \<Rightarrow> string \<Rightarrow> rat \<Rightarrow> (error + image) \<times> world" where
  "rasterize_with_ghostscript e w path dpi =
     (case find_gs_exe e of
        None \<Rightarrow> (Inl GhostscriptNotFound, w)
      | Some gs \<Rightarrow>
          let path_abs = resolve_path e path in
          if \<not> os_path_exists e path_abs then (Inl (FileNotFound path_abs), w)
          else
            let tmp_path = tempfile_name e;
                w1 = w\<lparr>temp_files := tmp_path # temp_files w\<rparr>;
                ext = lower (splitext_ext path_abs);
                cmd = [Lit gs, Lit ''-dSAFER'', Lit ''-dBATCH'', Lit ''-dNOPAUSE''] @
                      (if ext \<in> set [''.eps'', ''.ps'', ''.ai''] then [Lit ''-dEPSCrop'']
                       else if ext = ''.pdf'' then [Lit ''-dUseCropBox''] else []) @
                      [Lit ''-sDEVICE=pngalpha'', Fmt ''-r'' dpi,
                       Lit (''-sOutputFile='' @ tmp_path), Lit path_abs]
            in (case subprocess_run e cmd of
                  Exited0 \<Rightarrow>
                    (case Image_open e tmp_path of
                       None \<Rightarrow> (Inl LibraryError, w1)
                     | Some img \<Rightarrow> (Inr (img\<lparr>temp_raster_path := Some tmp_path\<rparr>), w1))
                | CalledProcessError stderr \<Rightarrow>
                    (Inl (PageRasterizationFailed path_abs (take 2000 stderr)),
                     try_remove e w1 tmp_path)
                | SpawnError \<Rightarrow> (Inl LibraryError, w1)))"

section \<open>Inkscape SVG fallback\<close>

text \<open>A Windows path, written as its components; they are joined by backslashes.\<close>

fun win_path :: "string list \<Rightarrow> string" where
  "win_path [] = []"
| "win_path [c] = c"
| "win_path (c # cs) = c @ CHR 0x5C # win_path cs"

definition find_inkscape_exe :: "env \<Rightarrow> string option" where
  "find_inkscape_exe e =
     (case (case environ_INKSCAPE_EXE e of
              Some v \<Rightarrow> if v \<noteq> [] \<and> os_path_exists e v then Some v else None
            | None \<Rightarrow> None) of
        Some v \<Rightarrow> Some v
      | None \<Rightarrow>
          (case shutil_which e ''inkscape'' of
             Some p \<Rightarrow> Some p
           | None \<Rightarrow>
               List.find (os_path_exists e)
                 [win_path [''C:'', ''Program Files'', ''Inkscape'', ''bin'', ''inkscape.exe''],
                  win_path [''C:'', ''Program Files'', ''Inkscape'', ''inkscape.exe''],
                  win_path [''C:'', ''Program Files (x86)'', ''Inkscape'', ''bin'',
                            ''inkscape.exe''],
                  win_path [''C:'', ''Program Files (x86)'', ''Inkscape'', ''inkscape.exe'']]))"

definition rasterize_svg_with_inkscape ::
    "env \<Rightarrow> world \<Rightarrow> string \<Rightarrow> rat \<Rightarrow> (error + image) \<times> world" where
  "rasterize_svg_with_inkscape e w path dpi =
     (case find_inkscape_exe e of
        None \<Rightarrow> (Inl InkscapeNotFound, w)
      | Some inkscape \<Rightarrow>
          let path_abs = resolve_path e path in
          if \<not> os_path_exists e path_abs then (Inl (FileNotFound path_abs), w)
          else
            let tmp_path = tempfile_name e;
                w1 = w\<lparr>temp_files := tmp_path # temp_files w\<rparr>;
                cmd = [Lit inkscape, Lit path_abs, Lit ''--export-type=png'',
                       Fmt ''--export-dpi='' dpi, Lit (''--export-filename='' @ tmp_path)]
            in (case subprocess_run e cmd of
                  Exited0 \<Rightarrow>
                    (case Image_open e tmp_path of
                       None \<Rightarrow> (Inl LibraryError, w1)
                     | Some img \<Rightarrow> (Inr (img\<lparr>temp_raster_path := Some tmp_path\<rparr>), w1))
                | CalledProcessError stderr \<Rightarrow>
                    (Inl (InkscapeFailed path_abs (take 2000 stderr)),
                     try_remove e w1 tmp_path)
                | SpawnError \<Rightarrow> (Inl LibraryError, w1)))"

section \<open>Open almost any image\<close>

text \<open>The result \<open>Inr None\<close> is the \<open>None\<close> the function returns when it skips a file.\<close>

definition open_image_any ::
    "env \<Rightarrow> world \<Rightarrow> string \<Rightarrow> rat \<Rightarrow> bool \<Rightarrow> bool \<Rightarrow> (error + image option) \<times> world" where
  "open_image_any e w path raster_dpi skip_gs_files skip_svg_files =
     (let path_abs = resolve_path e path in
      if \<not> os_path_exists e path_abs then (Inl (FileNotFound path_abs), w)
      else
        let ext = lower (splitext_ext path_abs) in
        if ext \<in> PS_PDF_EXTS then
          (case rasterize_with_ghostscript e w path_abs raster_dpi of
             (Inr img, w1) \<Rightarrow> (Inr (Some img), w1)
           | (Inl err, w1) \<Rightarrow> if skip_gs_files then (Inr None, w1) else (Inl err, w1))
        else
          (case Image_open e path_abs of
             Some img \<Rightarrow> (Inr (Some (plain img)), w)
           | None \<Rightarrow>
               if ext \<in> RAW_EXTS then
                 (case rawpy_decode e path_abs of
                    Inr img \<Rightarrow> (Inr (Some (plain img)), w)
                  | Inl reason \<Rightarrow> (Inl (RawDecodeFailed path_abs reason), w))
               else if ext \<in> VECTOR_EXTS then
                 (case cairosvg_svg2png e path_abs raster_dpi of
                    Some img \<Rightarrow> (Inr (Some (plain img)), w)
                  | None \<Rightarrow>
                      (case rasterize_svg_with_inkscape e w path_abs raster_dpi of
                         (Inr img, w1) \<Rightarrow> (Inr (Some img), w1)
                       | (Inl err, w1) \<Rightarrow>
                           if skip_svg_files then (Inr None, w1)
                           else (Inl (VectorRasterizationFailed path_abs), w1)))
               else (Inl (UnsupportedFormat path_abs), w)))"

section \<open>Resize to target paper size\<close>

text \<open>The dictionary the function returns: the success record or the error record.\<close>

datatype result =
    Success (res_size_dict: string) (res_size_key: string) (res_dpi: rat) (res_mode: string)
      (res_landscape: string) (res_target_px: "int \<times> int") (res_output: string)
      (res_src_path: string)
  | Failure (res_error: string) (res_message: string) (res_error_src_path: string)

definition size_dict_name :: "size_dict \<Rightarrow> string" where
  "size_dict_name sizes_mm =
     (if is_obj sizes_mm A_SIZES_MM then ''A_SIZES_MM''
      else if is_obj sizes_mm TWO_PER_THREE_SIZES_MM then ''TWO_PER_THREE_SIZES_MM''
      else if is_obj sizes_mm FOUR_PER_FIVE_SIZES_MM then ''FOUR_PER_FIVE_SIZES_MM''
      else if is_obj sizes_mm THREE_PER_FOUR_SIZES_MM then ''THREE_PER_FOUR_SIZES_MM''
      else if is_obj sizes_mm ELEVEN_X_FOURTEEN_SIZES_MM then ''ELEVEN_X_FOURTEEN_SIZES_MM''
      else ''CUSTOM'')"

text \<open>The record returned when \<open>open_image_any\<close> gave \<open>None\<close>.\<close>

definition skipped_record :: "env \<Rightarrow> string \<Rightarrow> result" where
  "skipped_record e src_path =
     (let ext = lower (splitext_ext (resolve_path e src_path)) in
      if ext \<in> PS_PDF_EXTS then
        Failure ''GS_REQUIRED''
          ''EPS/AI/PDF needs Ghostscript. Install Ghostscript or convert to PNG/JPG first.''
          (resolve_path e src_path)
      else if ext \<in> VECTOR_EXTS then
        Failure ''SVG_TOOL_REQUIRED''
          ''SVG needs Inkscape on Windows (recommended) or a working Cairo runtime.''
          (resolve_path e src_path)
      else Failure ''UNREADABLE'' ''File could not be opened.'' (resolve_path e src_path))"

text \<open>EXIF orientation, auto-crop and flattening, in this order.\<close>

definition preprocess :: "env \<Rightarrow> image \<Rightarrow> rgb \<Rightarrow> bool \<Rightarrow> bool \<Rightarrow> error + image" where
  "preprocess e im bg_color autocrop flatten_alpha =
     (let im1 = (case exif_transpose im of Inl err \<Rightarrow> im | Inr t \<Rightarrow> t);
          im2 = (if autocrop then autocrop_auto im1 else im1)
      in if flatten_alpha then
           (case convert_RGBA im2 of
              Inl err \<Rightarrow> Inl err
            | Inr rgba \<Rightarrow> flatten_alpha_to_bg e rgba bg_color)
         else Inr im2)"

text \<open>The size of the scaled content in "fit" mode.\<close>

definition fit_scale :: "int \<Rightarrow> int \<Rightarrow> nat \<Rightarrow> nat \<Rightarrow> error + (int \<times> int)" where
  "fit_scale target_w target_h w h =
     (if w = 0 \<or> h = 0 then Inl ZeroDivisionError
      else
        let ratio = min (rat_of_int target_w / rat_of_nat w) (rat_of_int target_h / rat_of_nat h);
            new_w = max 1 (py_round (rat_of_nat w * ratio));
            new_h = max 1 (py_round (rat_of_nat h * ratio))
        in Inr (new_w, new_h))"

definition fit_place ::
    "env \<Rightarrow> image \<Rightarrow> int \<Rightarrow> int \<Rightarrow> bool \<Rightarrow> string \<Rightarrow> rgb \<Rightarrow> error + image" where
  "fit_place e im target_w target_h has_alpha out_path bg_color =
     (case fit_scale target_w target_h (width im) (height im) of
        Inl err \<Rightarrow> Inl err
      | Inr (new_w, new_h) \<Rightarrow>
          (case resize e im new_w new_h of
             Inl err \<Rightarrow> Inl err
           | Inr im_copy \<Rightarrow>
               (case (if has_alpha \<and> endswith (lower out_path) ''.png''
                      then new_image RGBA target_w target_h (255, 255, 255, 0)
                      else new_image RGB target_w target_h
                             (case bg_color of (r, g, b) \<Rightarrow> (r, g, b, 255))) of
                  Inl err \<Rightarrow> Inl err
                | Inr out \<Rightarrow>
                    let x = (target_w - int (width im_copy)) div 2;
                        y = (target_h - int (height im_copy)) div 2
                    in Inr (paste out im_copy x y))))"

text \<open>The three placement modes and the conversion of the canvas before saving.\<close>

definition compose ::
    "env \<Rightarrow> image \<Rightarrow> string \<Rightarrow> int \<Rightarrow> int \<Rightarrow> string \<Rightarrow> rgb \<Rightarrow> error + image" where
  "compose e im place_mode target_w target_h out_path bg_color =
     (let has_alpha = (mode im = RGBA \<or> mode im = LA \<or> transparency im \<noteq> None) in
      case (if place_mode = ''stretch'' then resize e im target_w target_h
            else if place_mode = ''fill'' then ImageOps_fit e im target_w target_h
            else fit_place e im target_w target_h has_alpha out_path bg_color) of
        Inl err \<Rightarrow> Inl err
      | Inr out \<Rightarrow>
          if \<not> endswith (lower out_path) ''.png'' \<and> mode out = RGBA then convert_RGB out
          else Inr out)"

definition save :: "env \<Rightarrow> world \<Rightarrow> image \<Rightarrow> string \<Rightarrow> rat \<Rightarrow> (error + unit) \<times> world" where
  "save e w out out_path dpi =
     (if save_ok e out_path out then (Inr (), w\<lparr>saved := (out_path, out, dpi) # saved w\<rparr>)
      else (Inl LibraryError, w))"

text \<open>The body of the \<open>try\<close> block, and the \<open>finally\<close> block that follows it.\<close>

definition try_body ::
    "env \<Rightarrow> world \<Rightarrow> image \<Rightarrow> string \<Rightarrow> string \<Rightarrow> size_dict \<Rightarrow> string \<Rightarrow> rat \<Rightarrow> string \<Rightarrow>
     string \<Rightarrow> rgb \<Rightarrow> bool \<Rightarrow> bool \<Rightarrow> int \<Rightarrow> int \<Rightarrow> (error + result) \<times> world" where
  "try_body e w im src_path out_path sizes_mm size_key dpi place_mode landscape bg_color
      autocrop flatten_alpha target_w target_h =
     (case preprocess e im bg_color autocrop flatten_alpha of
        Inl err \<Rightarrow> (Inl err, w)
      | Inr im3 \<Rightarrow>
          (case compose e im3 place_mode target_w target_h out_path bg_color of
             Inl err \<Rightarrow> (Inl err, w)
           | Inr out \<Rightarrow>
               (case save e w out out_path dpi of
                  (Inl err, w1) \<Rightarrow> (Inl err, w1)
                | (Inr u, w1) \<Rightarrow>
                    (Inr (Success (size_dict_name sizes_mm) (upper size_key) dpi place_mode
                            landscape (target_w, target_h) out_path
                            (resolve_path e src_path)), w1))))"

definition finally_block :: "env \<Rightarrow> world \<Rightarrow> string option \<Rightarrow> world" where
  "finally_block e w temp_raster =
     (case temp_raster of
        None \<Rightarrow> w
      | Some p \<Rightarrow> if p \<noteq> [] then try_remove e w p else w)"

definition resize_to_a_size ::
    "env \<Rightarrow> world \<Rightarrow> string \<Rightarrow> string \<Rightarrow> size_dict \<Rightarrow> string \<Rightarrow> rat \<Rightarrow> string \<Rightarrow> string \<Rightarrow>
     rgb \<Rightarrow> bool \<Rightarrow> bool \<Rightarrow> bool \<Rightarrow> bool \<Rightarrow> (error + result) \<times> world" where
  "resize_to_a_size e w src_path out_path sizes_mm size_key dpi place_mode landscape bg_color
      skip_gs_files skip_svg_files autocrop flatten_alpha =
     (case paper_size_px size_key dpi landscape sizes_mm of
        Inl err \<Rightarrow> (Inl err, w)
      | Inr (target_w, target_h) \<Rightarrow>
          (case open_image_any e w src_path dpi skip_gs_files skip_svg_files of
             (Inl err, w1) \<Rightarrow> (Inl err, w1)
           | (Inr None, w1) \<Rightarrow> (Inr (skipped_record e src_path), w1)
           | (Inr (Some im), w1) \<Rightarrow>
               (case try_body e w1 im src_path out_path sizes_mm size_key dpi place_mode
                       landscape bg_color autocrop flatten_alpha target_w target_h of
                  (r, w2) \<Rightarrow> (r, finally_block e w2 (temp_raster_path im)))))"

section \<open>Example inputs\<close>

text \<open>
  A small world for the examples: a working directory \<open>/work\<close> with four files, no
  Ghostscript and no Inkscape, and simple stand-ins for the resampling filters.
\<close>

definition photo :: image where
  "photo = \<lparr>mode = RGB, width = 3, height = 3,
     px = (\<lambda>x y. if x = 1 \<and> y = 1 then (0, 0, 0, 255) else (255, 255, 255, 255)),
     transparency = None, exif_orientation = 0, loadable = True, temp_raster_path = None\<rparr>"

definition grey_alpha :: image where
  "grey_alpha = \<lparr>mode = LA, width = 2, height = 2,
     px = (\<lambda>x y. if x = 0 then (90, 90, 90, 128) else (200, 200, 200, 0)),
     transparency = None, exif_orientation = 0, loadable = True, temp_raster_path = None\<rparr>"

definition example_env :: env where
  "example_env = \<lparr>
     os_path_isabs = (\<lambda>p. take 1 p = ''/''),
     os_path_abspath = (\<lambda>p. if take 1 p = ''/'' then p else ''/work/'' @ p),
     os_path_exists = (\<lambda>p. p \<in> set [''/work/doc.pdf'', ''/work/shot.nef'',
                                      ''/work/grey.png'', ''/work/photo.jpg'']),
     script_dir_join = (\<lambda>p. Some (''/app/'' @ p)),
     shutil_which = (\<lambda>name. None),
     environ_INKSCAPE_EXE = None,
     tempfile_name = ''/tmp/tmp0.png'',
     subprocess_run = (\<lambda>cmd. SpawnError),
     Image_open = (\<lambda>p. if p = ''/work/grey.png'' then Some grey_alpha
                         else if p = ''/work/photo.jpg'' then Some photo else None),
     rawpy_decode = (\<lambda>p. Inl ''No module named rawpy''),
     cairosvg_svg2png = (\<lambda>p dpi. None),
     os_remove_ok = (\<lambda>p. True),
     lanczos = (\<lambda>im w h x y. px im (x * width im div w) (y * height im div h)),
     fit_lanczos = (\<lambda>im w h x y. px im (x * width im div w) (y * height im div h)),
     blend = (\<lambda>b s a. (s * a + b * (255 - a)) div 255),
     save_ok = (\<lambda>p im. True)\<rparr>"

text \<open>
  The same world with Ghostscript installed, where Ghostscript exits with status 0 and
  leaves a file that cannot be opened as an image.
\<close>

definition gs_env :: env where
  "gs_env = example_env\<lparr>
     shutil_which := (\<lambda>name. if name = ''gs'' then Some ''/usr/bin/gs'' else None),
     subprocess_run := (\<lambda>cmd. Exited0)\<rparr>"

definition empty_world :: world where
  "empty_world = \<lparr>temp_files = [], saved = []\<rparr>"

section \<open>Size resolution\<close>

text \<open>
  C2. Resolving size key "A4" from the A-series catalog at dpi 300 with vertical
  orientation returns exactly the pixel pair (2480, 3508).
\<close>

theorem paper_size_px_A4_300_vertical:
  "paper_size_px ''A4'' 300 ''vertical'' A_SIZES_MM = Inr (2480, 3508)"
  by code_simp

text \<open>
  The two products are far from a rounding tie: every number within 1/10 of the exact
  value rounds to the same integer, so the rounding error of the float computation
  (of the order of 1e-12 here) does not change the result.
\<close>

lemma py_round_nearest:
  assumes "rat_of_int n - 1 / 2 < x" and "x < rat_of_int n + 1 / 2"
  shows "py_round x = n"
proof (cases "rat_of_int n \<le> x")
  case True
  then have f: "\<lfloor>x\<rfloor> = n" using assms(2) by (intro floor_unique) simp_all
  show ?thesis using assms(2) by (simp add: py_round_def Let_def f)
next
  case False
  then have f: "\<lfloor>x\<rfloor> = n - 1" using assms(1) by (intro floor_unique) simp_all
  have "1 / 2 < x - rat_of_int (n - 1)" using assms(1) by simp
  then show ?thesis by (simp add: py_round_def Let_def f)
qed

lemma A4_300_away_from_ties:
  assumes "\<bar>x - 210 / (254 / 10) * 300\<bar> \<le> 1 / 10"
    and "\<bar>y - 297 / (254 / 10) * 300\<bar> \<le> 1 / 10"
  shows "py_round x = 2480" and "py_round y = 3508"
proof -
  have cx: "210 / (254 / 10) * 300 = (315000 / 127 :: rat)" by simp
  have cy: "297 / (254 / 10) * 300 = (445500 / 127 :: rat)" by simp
  have "rat_of_int 2480 - 1 / 2 < x \<and> x < rat_of_int 2480 + 1 / 2"
    using assms(1) unfolding cx by (simp only: of_int_numeral) linarith
  then show "py_round x = 2480" by (intro py_round_nearest) simp_all
  have "rat_of_int 3508 - 1 / 2 < y \<and> y < rat_of_int 3508 + 1 / 2"
    using assms(2) unfolding cy by (simp only: of_int_numeral) linarith
  then show "py_round y = 3508" by (intro py_round_nearest) simp_all
qed

text \<open>
  C7, as the code has it. The orientation string is lowercased before it is compared:
  the (width, height) pair of a known key is swapped if and only if the lowercased
  string is one of "horizontal", "landscape", "h"; any other value, "vertical"
  included, leaves the pair as the catalog gives it.
\<close>

theorem paper_size_px_swap_iff_lowered:
  assumes "map_of (items sizes_mm) (upper size_key) = Some (w_mm, h_mm)"
  shows "paper_size_px size_key dpi landscape sizes_mm =
     Inr (if lower landscape \<in> {''horizontal'', ''landscape'', ''h''}
          then (mm_to_px h_mm dpi, mm_to_px w_mm dpi)
          else (mm_to_px w_mm dpi, mm_to_px h_mm dpi))"
  using assms by (simp add: paper_size_px_def)

theorem paper_size_px_swap_iff_lowered_witness:
  "map_of (items A_SIZES_MM) (upper ''a4'') = Some (210, 297) \<and>
   paper_size_px ''a4'' 300 ''Landscape'' A_SIZES_MM = Inr (mm_to_px 297 300, mm_to_px 210 300) \<and>
   paper_size_px ''a4'' 300 ''vertical'' A_SIZES_MM = Inr (mm_to_px 210 300, mm_to_px 297 300)"
proof -
  have h: "map_of (items A_SIZES_MM) (upper ''a4'') = Some (210, 297)" by code_simp
  have l: "lower ''Landscape'' \<in> {''horizontal'', ''landscape'', ''h''}" by code_simp
  have v: "lower ''vertical'' \<notin> {''horizontal'', ''landscape'', ''h''}" by code_simp
  show ?thesis
    using h paper_size_px_swap_iff_lowered [OF h, of 300 "''Landscape''"]
      paper_size_px_swap_iff_lowered [OF h, of 300 "''vertical''"] l v
    by simp
qed

text \<open>
  The string "HORIZONTAL" is not a member of the three-element set, and the pair is
  swapped all the same.
\<close>

theorem orientation_uppercase_counterexample:
  "''HORIZONTAL'' \<notin> {''horizontal'', ''landscape'', ''h''} \<and>
   paper_size_px ''A4'' 300 ''vertical'' A_SIZES_MM = Inr (2480, 3508) \<and>
   paper_size_px ''A4'' 300 ''HORIZONTAL'' A_SIZES_MM = Inr (3508, 2480)"
  by code_simp

section \<open>The decoder cascade\<close>

lemma raw_not_ps: "x \<in> RAW_EXTS \<Longrightarrow> x \<notin> PS_PDF_EXTS"
  by (auto simp: RAW_EXTS_def PS_PDF_EXTS_def)

text \<open>
  C5. For a source file that exists, whose extension is in the RAW set, and for which
  both the generic raster decoder and the RAW decoder fail, \<open>open_image_any\<close> raises
  the RAW decoding error whatever the two skip flags are; it does not return \<open>None\<close>.
\<close>

theorem raw_decode_failure_always_raises:
  assumes "os_path_exists e (resolve_path e path)"
    and "lower (splitext_ext (resolve_path e path)) \<in> RAW_EXTS"
    and "Image_open e (resolve_path e path) = None"
    and "rawpy_decode e (resolve_path e path) = Inl reason"
  shows "open_image_any e w path dpi skip_gs_files skip_svg_files =
           (Inl (RawDecodeFailed (resolve_path e path) reason), w)"
  using assms raw_not_ps [OF assms(2)] by (simp add: open_image_any_def Let_def)

theorem raw_decode_failure_always_raises_witness:
  "os_path_exists example_env (resolve_path example_env ''shot.nef'') \<and>
   lower (splitext_ext (resolve_path example_env ''shot.nef'')) \<in> RAW_EXTS \<and>
   Image_open example_env (resolve_path example_env ''shot.nef'') = None \<and>
   rawpy_decode example_env (resolve_path example_env ''shot.nef'') =
     Inl ''No module named rawpy'' \<and>
   open_image_any example_env empty_world ''shot.nef'' 300 True True =
     (Inl (RawDecodeFailed (resolve_path example_env ''shot.nef'') ''No module named rawpy''),
      empty_world)"
proof -
  have h1: "os_path_exists example_env (resolve_path example_env ''shot.nef'')"
    by code_simp
  have h2: "lower (splitext_ext (resolve_path example_env ''shot.nef'')) \<in> RAW_EXTS"
    by code_simp
  have r: "resolve_path example_env ''shot.nef'' = ''/work/shot.nef''"
    by code_simp
  have h3: "Image_open example_env (resolve_path example_env ''shot.nef'') = None"
    unfolding r by (simp add: example_env_def)
  have h4: "rawpy_decode example_env (resolve_path example_env ''shot.nef'') =
     Inl ''No module named rawpy''"
    unfolding r by (simp add: example_env_def)
  show ?thesis
    using h1 h2 h3 h4
      raw_decode_failure_always_raises [OF h1 h2 h3 h4, of empty_world 300 True True]
    by simp
qed

section \<open>The pipeline\<close>

text \<open>
  C4, as the code has it. The size key is resolved before the file is opened, and an
  unknown key raises. For a source file that exists, with a page-description
  extension, on a system without Ghostscript, and a size key the catalog knows: with
  the skip flag set the call returns the error record of kind GS_REQUIRED, with its
  message and the resolved source path, and raises nothing; with the skip flag unset
  the call raises.
\<close>

theorem page_description_without_rasterizer:
  assumes "lower (splitext_ext (resolve_path e src_path)) \<in> PS_PDF_EXTS"
    and "find_gs_exe e = None"
    and "os_path_exists e (resolve_path e src_path)"
    and "paper_size_px size_key dpi landscape sizes_mm = Inr target"
  shows "resize_to_a_size e w src_path out_path sizes_mm size_key dpi place_mode landscape
           bg_color True skip_svg_files autocrop flatten_alpha =
         (Inr (Failure ''GS_REQUIRED''
            ''EPS/AI/PDF needs Ghostscript. Install Ghostscript or convert to PNG/JPG first.''
            (resolve_path e src_path)), w) \<and>
         resize_to_a_size e w src_path out_path sizes_mm size_key dpi place_mode landscape
           bg_color False skip_svg_files autocrop flatten_alpha =
         (Inl GhostscriptNotFound, w)"
  using assms
  by (cases target)
     (simp add: resize_to_a_size_def open_image_any_def rasterize_with_ghostscript_def
        skipped_record_def Let_def)

theorem page_description_without_rasterizer_witness:
  "lower (splitext_ext (resolve_path example_env ''doc.pdf'')) \<in> PS_PDF_EXTS \<and>
   find_gs_exe example_env = None \<and>
   os_path_exists example_env (resolve_path example_env ''doc.pdf'') \<and>
   paper_size_px ''A4'' 300 ''vertical'' A_SIZES_MM = Inr (2480, 3508) \<and>
   resize_to_a_size example_env empty_world ''doc.pdf'' ''out.png'' A_SIZES_MM ''A4'' 300
       ''fit'' ''vertical'' (255, 255, 255) True True True True =
     (Inr (Failure ''GS_REQUIRED''
        ''EPS/AI/PDF needs Ghostscript. Install Ghostscript or convert to PNG/JPG first.''
        (resolve_path example_env ''doc.pdf'')), empty_world) \<and>
   resize_to_a_size example_env empty_world ''doc.pdf'' ''out.png'' A_SIZES_MM ''A4'' 300
       ''fit'' ''vertical'' (255, 255, 255) False True True True =
     (Inl GhostscriptNotFound, empty_world)"
proof -
  have h1: "lower (splitext_ext (resolve_path example_env ''doc.pdf'')) \<in> PS_PDF_EXTS"
    by code_simp
  have h2: "find_gs_exe example_env = None"
    by code_simp
  have h3: "os_path_exists example_env (resolve_path example_env ''doc.pdf'')"
    by code_simp
  have h4: "paper_size_px ''A4'' 300 ''vertical'' A_SIZES_MM = Inr (2480, 3508)"
    by code_simp
  show ?thesis
    using h1 h2 h3 h4
      page_description_without_rasterizer [OF h1 h2 h3 h4, of empty_world "''out.png''"
        "''fit''" "(255, 255, 255)" True True True]
    by simp
qed

text \<open>
  With a size key the catalog does not have, the same call raises although the skip
  flag is set.
\<close>

theorem unknown_size_key_counterexample:
  "lower (splitext_ext (resolve_path example_env ''doc.pdf'')) \<in> PS_PDF_EXTS \<and>
   find_gs_exe example_env = None \<and>
   os_path_exists example_env (resolve_path example_env ''doc.pdf'') \<and>
   fst (resize_to_a_size example_env empty_world ''doc.pdf'' ''out.png'' A_SIZES_MM ''B5'' 300
       ''fit'' ''vertical'' (255, 255, 255) True True True True) =
     Inl (UnknownSizeKey ''B5'' [''A1'', ''A2'', ''A3'', ''A4''])"
  by code_simp

text \<open>
  C10. When the call returns a success record and the \<open>sizes_mm\<close> argument is not the
  same object as any of the five module-level dictionaries, the \<open>size_dict\<close> field is
  "CUSTOM", whatever the dictionary contains.
\<close>

theorem size_dict_custom_by_identity:
  assumes "fst (resize_to_a_size e w src_path out_path sizes_mm size_key dpi place_mode
             landscape bg_color skip_gs_files skip_svg_files autocrop flatten_alpha) =
           Inr (Success sd sk d m l t out src)"
    and "\<not> is_obj sizes_mm A_SIZES_MM"
    and "\<not> is_obj sizes_mm TWO_PER_THREE_SIZES_MM"
    and "\<not> is_obj sizes_mm FOUR_PER_FIVE_SIZES_MM"
    and "\<not> is_obj sizes_mm THREE_PER_FOUR_SIZES_MM"
    and "\<not> is_obj sizes_mm ELEVEN_X_FOURTEEN_SIZES_MM"
  shows "sd = ''CUSTOM''"
  using assms
  by (auto simp: resize_to_a_size_def try_body_def skipped_record_def size_dict_name_def Let_def
      split: sum.splits prod.splits option.splits if_splits)

theorem size_dict_custom_by_identity_witness:
  "fst (resize_to_a_size example_env empty_world ''photo.jpg'' ''out.png''
          (A_SIZES_MM\<lparr>obj_id := 5\<rparr>) ''a4'' 300 ''fit'' ''vertical'' (255, 255, 255)
          True True True True) =
     Inr (Success ''CUSTOM'' ''A4'' 300 ''fit'' ''vertical'' (2480, 3508) ''out.png''
            ''/work/photo.jpg'') \<and>
   items (A_SIZES_MM\<lparr>obj_id := 5\<rparr>) = items A_SIZES_MM \<and>
   \<not> is_obj (A_SIZES_MM\<lparr>obj_id := 5\<rparr>) A_SIZES_MM \<and>
   \<not> is_obj (A_SIZES_MM\<lparr>obj_id := 5\<rparr>) TWO_PER_THREE_SIZES_MM \<and>
   \<not> is_obj (A_SIZES_MM\<lparr>obj_id := 5\<rparr>) FOUR_PER_FIVE_SIZES_MM \<and>
   \<not> is_obj (A_SIZES_MM\<lparr>obj_id := 5\<rparr>) THREE_PER_FOUR_SIZES_MM \<and>
   \<not> is_obj (A_SIZES_MM\<lparr>obj_id := 5\<rparr>) ELEVEN_X_FOURTEEN_SIZES_MM"
proof -
  have h0: "fst (resize_to_a_size example_env empty_world ''photo.jpg'' ''out.png''
          (A_SIZES_MM\<lparr>obj_id := 5\<rparr>) ''a4'' 300 ''fit'' ''vertical'' (255, 255, 255)
          True True True True) =
     Inr (Success (size_dict_name (A_SIZES_MM\<lparr>obj_id := 5\<rparr>)) ''A4'' 300 ''fit''
            ''vertical'' (2480, 3508) ''out.png'' ''/work/photo.jpg'')"
    by code_simp
  have h1: "\<not> is_obj (A_SIZES_MM\<lparr>obj_id := 5\<rparr>) A_SIZES_MM"
    by code_simp
  have h2: "\<not> is_obj (A_SIZES_MM\<lparr>obj_id := 5\<rparr>) TWO_PER_THREE_SIZES_MM"
    by code_simp
  have h3: "\<not> is_obj (A_SIZES_MM\<lparr>obj_id := 5\<rparr>) FOUR_PER_FIVE_SIZES_MM"
    by code_simp
  have h4: "\<not> is_obj (A_SIZES_MM\<lparr>obj_id := 5\<rparr>) THREE_PER_FOUR_SIZES_MM"
    by code_simp
  have h5: "\<not> is_obj (A_SIZES_MM\<lparr>obj_id := 5\<rparr>) ELEVEN_X_FOURTEEN_SIZES_MM"
    by code_simp
  have "size_dict_name (A_SIZES_MM\<lparr>obj_id := 5\<rparr>) = ''CUSTOM''"
    by (rule size_dict_custom_by_identity [OF h0 h1 h2 h3 h4 h5])
  with h0 h1 h2 h3 h4 h5 show ?thesis by simp
qed

text \<open>
  C6 at a failing input. Ghostscript is installed and exits with status 0, and the file
  it leaves cannot be opened as an image: the exception is not the one the rasterizer
  helper catches, so the temporary file is not removed there; the skip flag turns the
  exception into \<open>None\<close>, the call returns the GS_REQUIRED record before its cleanup
  block is entered, and the temporary file is still on disk when the call has returned.
\<close>

theorem temp_file_left_when_raster_unreadable:
  "temp_files empty_world = [] \<and>
   fst (resize_to_a_size gs_env empty_world ''doc.pdf'' ''out.png'' A_SIZES_MM ''A4'' 300
          ''fit'' ''vertical'' (255, 255, 255) True True True True) =
     Inr (Failure ''GS_REQUIRED''
        ''EPS/AI/PDF needs Ghostscript. Install Ghostscript or convert to PNG/JPG first.''
        ''/work/doc.pdf'') \<and>
   temp_files (snd (resize_to_a_size gs_env empty_world ''doc.pdf'' ''out.png'' A_SIZES_MM
          ''A4'' 300 ''fit'' ''vertical'' (255, 255, 255) True True True True)) =
     [''/tmp/tmp0.png''] \<and>
   fst (resize_to_a_size gs_env empty_world ''doc.pdf'' ''out.png'' A_SIZES_MM ''A4'' 300
          ''fit'' ''vertical'' (255, 255, 255) False True True True) = Inl LibraryError \<and>
   temp_files (snd (resize_to_a_size gs_env empty_world ''doc.pdf'' ''out.png'' A_SIZES_MM
          ''A4'' 300 ''fit'' ''vertical'' (255, 255, 255) False True True True)) =
     [''/tmp/tmp0.png'']"
  by code_simp

text \<open>
  On the paths where \<open>open_image_any\<close> returns an image, the cleanup block is run
  whatever the body does: the temporary raster file of the image is removed (when the
  operating system lets it be removed).
\<close>

lemma try_body_keeps_temp_files:
  "temp_files (snd (try_body e w im src_path out_path sizes_mm size_key dpi place_mode
      landscape bg_color autocrop flatten_alpha target_w target_h)) = temp_files w"
  by (simp add: try_body_def save_def split: sum.splits prod.splits)

lemma finally_removes_temp_raster:
  assumes "paper_size_px size_key dpi landscape sizes_mm = Inr target"
    and "open_image_any e w src_path dpi skip_gs_files skip_svg_files = (Inr (Some im), w1)"
    and "temp_raster_path im = Some p" and "p \<noteq> []" and "os_remove_ok e p"
  shows "temp_files (snd (resize_to_a_size e w src_path out_path sizes_mm size_key dpi
           place_mode landscape bg_color skip_gs_files skip_svg_files autocrop flatten_alpha)) =
         removeAll p (temp_files w1)"
proof -
  obtain tw th where t: "target = (tw, th)" by (cases target) auto
  obtain r w2 where b: "try_body e w1 im src_path out_path sizes_mm size_key dpi place_mode
      landscape bg_color autocrop flatten_alpha tw th = (r, w2)"
    by (cases "try_body e w1 im src_path out_path sizes_mm size_key dpi place_mode
      landscape bg_color autocrop flatten_alpha tw th") auto
  have "temp_files w2 = temp_files w1"
    using try_body_keeps_temp_files [of e w1 im src_path out_path sizes_mm size_key dpi
        place_mode landscape bg_color autocrop flatten_alpha tw th] b by simp
  then show ?thesis
    using assms t b by (simp add: resize_to_a_size_def finally_block_def try_remove_def)
qed

text \<open>
  C8 at a failing input. A grey image with an alpha band (mode LA), auto-crop and
  flattening switched off, "stretch" mode, an output path that does not end in ".png":
  the canvas keeps the mode LA, only the mode RGBA is converted before saving, and the
  image that is saved has its alpha band.
\<close>

theorem alpha_kept_for_LA_in_stretch_mode:
  "\<not> endswith (lower ''out.tif'') ''.png'' \<and>
   map (\<lambda>(p, im, d). (p, mode im, im_size im))
     (saved (snd (resize_to_a_size example_env empty_world ''grey.png'' ''out.tif''
        A_SIZES_MM ''A4'' 300 ''stretch'' ''vertical'' (255, 255, 255) True True False False))) =
     [(''out.tif'', LA, (2480, 3508))] \<and>
   map (\<lambda>(p, im, d). (p, mode im, im_size im))
     (saved (snd (resize_to_a_size example_env empty_world ''grey.png'' ''out.tif''
        A_SIZES_MM ''A4'' 300 ''fill'' ''vertical'' (255, 255, 255) True True False False))) =
     [(''out.tif'', LA, (2480, 3508))]"
  by code_simp

text \<open>
  The mode of the canvas for an output path that does not end in ".png": RGB in "fit"
  mode; in "stretch" and "fill" mode the mode of the pre-processed image, with RGBA
  alone turned into RGB.
\<close>

lemma resize_mode: "resize e im w h = Inr out \<Longrightarrow> mode out = mode im"
  by (auto simp: resize_def copy_def split: if_splits)

lemma ImageOps_fit_mode: "ImageOps_fit e im w h = Inr out \<Longrightarrow> mode out = mode im"
  by (auto simp: ImageOps_fit_def split: if_splits)

lemma convert_RGB_mode: "convert_RGB im = Inr out \<Longrightarrow> mode out = RGB"
  by (auto simp: convert_RGB_def copy_def split: if_splits)

lemma fit_place_mode_not_png:
  assumes "fit_place e im tw th has_alpha out_path bg = Inr out"
    and "\<not> endswith (lower out_path) ''.png''"
  shows "mode out = RGB"
  using assms
  by (auto simp: fit_place_def new_image_def paste_def Let_def
      split: sum.splits prod.splits if_splits)

lemma compose_mode_not_png:
  assumes "compose e im place_mode tw th out_path bg = Inr out"
    and "\<not> endswith (lower out_path) ''.png''"
  shows "mode out = (if place_mode = ''stretch'' \<or> place_mode = ''fill''
                     then (if mode im = RGBA then RGB else mode im) else RGB)"
  using assms
  by (auto simp: compose_def Let_def
      dest: resize_mode ImageOps_fit_mode convert_RGB_mode fit_place_mode_not_png
      split: sum.splits if_splits)

section \<open>Bounding boxes\<close>

lemma getbbox_None_iff:
  "getbbox w h nz = None \<longleftrightarrow> (\<forall>x<w. \<forall>y<h. \<not> nz x y)"
  unfolding getbbox_def Let_def
  by (simp add: filter_empty_conv list_ex_iff Bex_def)

lemma getbbox_SomeI:
  assumes "l < r" and "r \<le> w" and "u < b" and "b \<le> h"
    and "\<exists>y<h. nz l y" and "\<exists>y<h. nz (r - 1) y"
    and "\<exists>x<w. nz x u" and "\<exists>x<w. nz x (b - 1)"
    and "\<forall>x<w. \<forall>y<h. nz x y \<longrightarrow> l \<le> x \<and> x < r \<and> u \<le> y \<and> y < b"
  shows "getbbox w h nz = Some (l, u, r, b)"
proof -
  define X where "X = {x. x < w \<and> (\<exists>y<h. nz x y)}"
  define Y where "Y = {y. y < h \<and> (\<exists>x<w. nz x y)}"
  have sx: "set (filter (\<lambda>x. list_ex (\<lambda>y. nz x y) [0..<h]) [0..<w]) = X"
    by (auto simp: X_def list_ex_iff)
  have sy: "set (filter (\<lambda>y. list_ex (\<lambda>x. nz x y) [0..<w]) [0..<h]) = Y"
    by (auto simp: Y_def list_ex_iff)
  have fx: "finite X" and fy: "finite Y" by (simp_all add: X_def Y_def)
  have lX: "l \<in> X" and rX: "r - 1 \<in> X" using assms by (auto simp: X_def)
  have uY: "u \<in> Y" and bY: "b - 1 \<in> Y" using assms by (auto simp: Y_def)
  have Xb: "\<And>x. x \<in> X \<Longrightarrow> l \<le> x \<and> x \<le> r - 1" using assms(9) by (fastforce simp: X_def)
  have Yb: "\<And>y. y \<in> Y \<Longrightarrow> u \<le> y \<and> y \<le> b - 1" using assms(9) by (fastforce simp: Y_def)
  have minx: "Min X = l" using fx lX Xb by (intro Min_eqI) auto
  have maxx: "Max X = r - 1" using fx rX Xb by (intro Max_eqI) auto
  have miny: "Min Y = u" using fy uY Yb by (intro Min_eqI) auto
  have maxy: "Max Y = b - 1" using fy bY Yb by (intro Max_eqI) auto
  have ne: "filter (\<lambda>x. list_ex (\<lambda>y. nz x y) [0..<h]) [0..<w] \<noteq> []"
       "filter (\<lambda>y. list_ex (\<lambda>x. nz x y) [0..<w]) [0..<h] \<noteq> []"
    using lX uY sx sy by (metis empty_iff set_empty)+
  show ?thesis
    unfolding getbbox_def Let_def sx sy using ne minx maxx miny maxy assms(1) assms(3)
    by simp
qed

lemma getbbox_SomeD:
  assumes "getbbox w h nz = Some (l, u, r, b)"
  shows "l < r \<and> r \<le> w \<and> u < b \<and> b \<le> h \<and>
         (\<exists>y<h. nz l y) \<and> (\<exists>y<h. nz (r - 1) y) \<and>
         (\<exists>x<w. nz x u) \<and> (\<exists>x<w. nz x (b - 1)) \<and>
         (\<forall>x<w. \<forall>y<h. nz x y \<longrightarrow> l \<le> x \<and> x < r \<and> u \<le> y \<and> y < b)"
proof -
  define X where "X = {x. x < w \<and> (\<exists>y<h. nz x y)}"
  define Y where "Y = {y. y < h \<and> (\<exists>x<w. nz x y)}"
  have sx: "set (filter (\<lambda>x. list_ex (\<lambda>y. nz x y) [0..<h]) [0..<w]) = X"
    by (auto simp: X_def list_ex_iff)
  have sy: "set (filter (\<lambda>y. list_ex (\<lambda>x. nz x y) [0..<w]) [0..<h]) = Y"
    by (auto simp: Y_def list_ex_iff)
  have fx: "finite X" and fy: "finite Y" by (simp_all add: X_def Y_def)
  define xs where "xs = filter (\<lambda>x. list_ex (\<lambda>y. nz x y) [0..<h]) [0..<w]"
  define ys where "ys = filter (\<lambda>y. list_ex (\<lambda>x. nz x y) [0..<w]) [0..<h]"
  have g: "getbbox w h nz = (if xs = [] \<or> ys = [] then None
         else Some (Min (set xs), Min (set ys), Suc (Max (set xs)), Suc (Max (set ys))))"
    by (simp add: getbbox_def Let_def xs_def ys_def)
  have nel: "xs \<noteq> []" "ys \<noteq> []" using assms g by (auto split: if_splits)
  have "Some (l, u, r, b) = Some (Min (set xs), Min (set ys), Suc (Max (set xs)), Suc (Max (set ys)))"
    using assms g nel by simp
  then have eqs: "l = Min X" "u = Min Y" "r = Suc (Max X)" "b = Suc (Max Y)"
    using sx sy by (simp_all add: xs_def ys_def)
  have ne: "X \<noteq> {}" "Y \<noteq> {}"
    using nel sx sy unfolding xs_def ys_def by (metis set_empty)+
  have lX: "l \<in> X" and mX: "Max X \<in> X" using fx ne eqs by (auto intro: Min_in Max_in)
  have uY: "u \<in> Y" and mY: "Max Y \<in> Y" using fy ne eqs by (auto intro: Min_in Max_in)
  have Xb: "\<And>x. x \<in> X \<Longrightarrow> l \<le> x \<and> x \<le> Max X" using fx eqs by auto
  have Yb: "\<And>y. y \<in> Y \<Longrightarrow> u \<le> y \<and> y \<le> Max Y" using fy eqs by auto
  have c: "\<forall>x<w. \<forall>y<h. nz x y \<longrightarrow> l \<le> x \<and> x < r \<and> u \<le> y \<and> y < b"
  proof (intro allI impI)
    fix x y assume "x < w" "y < h" "nz x y"
    then have "x \<in> X" "y \<in> Y" by (auto simp: X_def Y_def)
    then show "l \<le> x \<and> x < r \<and> u \<le> y \<and> y < b"
      using Xb Yb eqs by (auto simp: less_Suc_eq_le)
  qed
  show ?thesis
    using lX mX uY mY Xb [OF mX] Yb [OF mY] c eqs unfolding X_def Y_def
    by auto
qed

lemma getbbox_full:
  assumes "0 < w" and "0 < h" and "\<forall>x<w. \<forall>y<h. nz x y"
  shows "getbbox w h nz = Some (0, 0, w, h)"
  using assms
  by (intro getbbox_SomeI) (auto intro: exI [of _ 0])

lemma getbbox_tight:
  assumes "getbbox w h nz = Some (l, u, r, b)"
  shows "getbbox (r - l) (b - u) (\<lambda>x y. nz (x + l) (y + u)) = Some (0, 0, r - l, b - u)"
proof -
  note d = getbbox_SomeD [OF assms]
  from d obtain y1 where y1: "y1 < h" "nz l y1" by blast
  from d obtain y2 where y2: "y2 < h" "nz (r - 1) y2" by blast
  from d obtain x1 where x1: "x1 < w" "nz x1 u" by blast
  from d obtain x2 where x2: "x2 < w" "nz x2 (b - 1)" by blast
  have lr: "l < r" "r \<le> w" "u < b" "b \<le> h" using d by auto
  have cont: "\<And>x y. x < w \<Longrightarrow> y < h \<Longrightarrow> nz x y \<Longrightarrow> l \<le> x \<and> x < r \<and> u \<le> y \<and> y < b"
    using d by blast
  have a1: "\<exists>y<b - u. nz (0 + l) (y + u)"
    using cont [OF _ y1] y1 lr by (intro exI [of _ "y1 - u"]) auto
  have r1: "r - 1 < w" and b1: "b - 1 < h" using lr by auto
  have a2: "\<exists>y<b - u. nz (r - l - 1 + l) (y + u)"
    using cont [OF r1 y2] y2 lr by (intro exI [of _ "y2 - u"]) auto
  have a3: "\<exists>x<r - l. nz (x + l) (0 + u)"
    using cont [OF x1(1) _ x1(2)] x1 lr by (intro exI [of _ "x1 - l"]) auto
  have a4: "\<exists>x<r - l. nz (x + l) (b - u - 1 + u)"
    using cont [OF x2(1) b1 x2(2)] x2 lr by (intro exI [of _ "x2 - l"]) auto
  show ?thesis
    using lr a1 a2 a3 a4 by (intro getbbox_SomeI) auto
qed

section \<open>Auto-crop\<close>

text \<open>
  C1 at a failing input. A 3 x 3 image in mode RGB, white with one black pixel in the
  middle, has no alpha band, and the bounding box of its pixels that differ from white
  is the middle pixel; \<open>autocrop_white\<close> crops to it. \<open>autocrop_auto\<close> converts the
  image to RGBA first, where every pixel is opaque, so the bounding box of the alpha band
  is the whole image: the image comes back with all its 3 x 3 pixels, and
  \<open>autocrop_white\<close> is not reached.
\<close>

theorem autocrop_auto_opaque_not_cropped:
  "mode photo = RGB \<and> transparency photo = None \<and>
   getbbox (width photo) (height photo) (\<lambda>x y. rgb_at photo x y \<noteq> (255, 255, 255)) =
     Some (1, 1, 2, 2) \<and>
   map_sum id im_size (autocrop_white photo (255, 255, 255)) = Inr (1, 1) \<and>
   im_size (autocrop_auto photo) = (3, 3) \<and>
   pixels (autocrop_auto photo) = pixels photo"
  by code_simp

lemma alpha_at_no_band:
  assumes "mode im \<noteq> RGBA" and "mode im \<noteq> LA"
  shows "alpha_at im x y = (if transparency im = Some (rgb_at im x y) then 0 else 255)"
  using assms by (simp add: alpha_at_def rgb_at_def split: prod.splits)

lemma convert_RGBA_loadable:
  assumes "loadable im"
  shows "\<exists>c. convert_RGBA im = Inr c \<and> mode c = RGBA \<and> loadable c \<and>
           width c = width im \<and> height c = height im \<and>
           (\<forall>x y. alpha_at c x y = alpha_at im x y) \<and>
           (\<forall>x y. rgba_at c x y = rgba_at im x y)"
  using assms
  by (auto simp: convert_RGBA_def copy_def alpha_at_def rgba_at_def rgb_at_def
      split: prod.splits)

lemma convert_RGBA_not_loadable:
  assumes "\<not> loadable im"
  shows "convert_RGBA im = Inl LibraryError"
  using assms by (simp add: convert_RGBA_def)

lemma crop_loadable:
  assumes "loadable c"
  shows "\<exists>c'. crop c (l, u, r, b) = Inr c' \<and> mode c' = mode c \<and> loadable c' \<and>
           transparency c' = transparency c \<and>
           width c' = r - l \<and> height c' = b - u \<and>
           (\<forall>x y. px c' x y = px c (x + l) (y + u))"
  using assms by (simp add: crop_def)

lemma crop_views:
  assumes "mode c' = mode c" and "transparency c' = transparency c"
    and "\<forall>x y. px c' x y = px c (x + l) (y + u)"
  shows "alpha_at c' x y = alpha_at c (x + l) (y + u)"
    and "rgb_at c' x y = rgb_at c (x + l) (y + u)"
    and "rgba_at c' x y = rgba_at c (x + l) (y + u)"
  using assms by (simp_all add: alpha_at_def rgb_at_def rgba_at_def split: prod.splits)

lemma autocrop_white_loadable:
  assumes "loadable im"
  shows "\<exists>R. autocrop_white im bg = Inr R \<and> loadable R \<and> mode R = RGB \<and>
           transparency R = transparency im \<and>
           ((\<exists>l u r b. getbbox (width im) (height im) (\<lambda>x y. rgb_at im x y \<noteq> bg) = Some (l, u, r, b) \<and>
                width R = r - l \<and> height R = b - u \<and>
                (\<forall>x y. rgb_at R x y = rgb_at im (x + l) (y + u))) \<or>
            (getbbox (width im) (height im) (\<lambda>x y. rgb_at im x y \<noteq> bg) = None \<and>
                width R = width im \<and> height R = height im \<and>
                (\<forall>x y. rgb_at R x y = rgb_at im x y)))"
proof -
  define im1 where "im1 = (if mode im \<noteq> RGB
      then im\<lparr>mode := RGB, px := (\<lambda>x y. case rgb_at im x y of (r, g, b) \<Rightarrow> (r, g, b, 255)),
                   temp_raster_path := None\<rparr> else im)"
  have c1: "(if mode im \<noteq> RGB then convert_RGB im else Inr im) = Inr im1"
    using assms by (simp add: im1_def convert_RGB_def)
  have p1: "loadable im1" "mode im1 = RGB" "transparency im1 = transparency im"
    "width im1 = width im" "height im1 = height im"
    using assms by (simp_all add: im1_def)
  have r1: "\<And>x y. rgb_at im1 x y = rgb_at im x y"
    by (simp add: im1_def rgb_at_def split: prod.splits)
  have bb: "getbbox (width im1) (height im1) (\<lambda>x y. rgb_at im1 x y \<noteq> bg) =
            getbbox (width im) (height im) (\<lambda>x y. rgb_at im x y \<noteq> bg)"
    by (simp add: p1 r1)
  show ?thesis
  proof (cases "getbbox (width im) (height im) (\<lambda>x y. rgb_at im x y \<noteq> bg)")
    case None
    then have "autocrop_white im bg = Inr im1"
      unfolding autocrop_white_def c1 using p1(1) bb by simp
    then show ?thesis using None p1 r1 by simp
  next
    case (Some bx)
    obtain l u r b where bx: "bx = (l, u, r, b)" by (cases bx) auto
    from crop_loadable [OF p1(1), of l u r b]
    obtain R where R: "crop im1 (l, u, r, b) = Inr R" "mode R = mode im1" "loadable R"
      "transparency R = transparency im1" "width R = r - l" "height R = b - u"
      "\<forall>x y. px R x y = px im1 (x + l) (y + u)"
      by blast
    have aw: "autocrop_white im bg = Inr R"
      unfolding autocrop_white_def c1 using p1(1) bb Some bx R(1) by simp
    have "\<And>x y. rgb_at R x y = rgb_at im (x + l) (y + u)"
      using crop_views(2) [OF R(2) R(4) R(7)] r1 by simp
    then show ?thesis using aw R p1 Some bx by auto
  qed
qed

lemma autocrop_auto_not_loadable:
  assumes "\<not> loadable im"
  shows "autocrop_auto im = im"
  using assms
  by (simp add: autocrop_auto_def convert_RGBA_not_loadable autocrop_white_def convert_RGB_def)

lemma autocrop_auto_alpha_Some:
  assumes "loadable im"
    and "getbbox (width im) (height im) (\<lambda>x y. alpha_at im x y \<noteq> 0) = Some (l, u, r, b)"
  shows "mode (autocrop_auto im) = RGBA \<and> loadable (autocrop_auto im) \<and>
         width (autocrop_auto im) = r - l \<and> height (autocrop_auto im) = b - u \<and>
         (\<forall>x y. alpha_at (autocrop_auto im) x y = alpha_at im (x + l) (y + u)) \<and>
         (\<forall>x y. rgba_at (autocrop_auto im) x y = rgba_at im (x + l) (y + u))"
proof -
  from convert_RGBA_loadable [OF assms(1)]
  obtain c where c: "convert_RGBA im = Inr c" "mode c = RGBA" "loadable c"
    "width c = width im" "height c = height im"
    "\<forall>x y. alpha_at c x y = alpha_at im x y" "\<forall>x y. rgba_at c x y = rgba_at im x y"
    by blast
  from crop_loadable [OF c(3), of l u r b]
  obtain R where R: "crop c (l, u, r, b) = Inr R" "mode R = mode c" "loadable R"
      "transparency R = transparency c" "width R = r - l" "height R = b - u"
      "\<forall>x y. px R x y = px c (x + l) (y + u)"
    by blast
  have bb: "getbbox (width c) (height c) (\<lambda>x y. alpha_at c x y \<noteq> 0) = Some (l, u, r, b)"
    using assms(2) c by simp
  have "autocrop_auto im = R"
    unfolding autocrop_auto_def c(1) using bb R(1) by simp
  then show ?thesis
    using R c crop_views(1) [OF R(2) R(4) R(7)] crop_views(3) [OF R(2) R(4) R(7)] by simp
qed

lemma autocrop_auto_alpha_None:
  assumes "loadable im"
    and "getbbox (width im) (height im) (\<lambda>x y. alpha_at im x y \<noteq> 0) = None"
  shows "autocrop_white im (255, 255, 255) = Inr (autocrop_auto im)"
proof -
  from convert_RGBA_loadable [OF assms(1)]
  obtain c where c: "convert_RGBA im = Inr c" "mode c = RGBA" "loadable c"
    "width c = width im" "height c = height im"
    "\<forall>x y. alpha_at c x y = alpha_at im x y" "\<forall>x y. rgba_at c x y = rgba_at im x y"
    by blast
  have bb: "getbbox (width c) (height c) (\<lambda>x y. alpha_at c x y \<noteq> 0) = None"
    using assms(2) c by simp
  from autocrop_white_loadable [OF assms(1), of "(255, 255, 255)"]
  obtain R where R: "autocrop_white im (255, 255, 255) = Inr R" by blast
  have "autocrop_auto im = R"
    unfolding autocrop_auto_def c(1) using bb R by simp
  then show ?thesis using R by simp
qed

lemma autocrop_auto_keeps_full:
  assumes "loadable R"
    and "getbbox (width R) (height R) (\<lambda>x y. alpha_at R x y \<noteq> 0) =
           Some (0, 0, width R, height R)"
  shows "width (autocrop_auto R) = width R \<and> height (autocrop_auto R) = height R \<and>
         (\<forall>x y. rgba_at (autocrop_auto R) x y = rgba_at R x y)"
  using autocrop_auto_alpha_Some [OF assms] by simp

lemma autocrop_auto_keeps_white_cropped:
  assumes "loadable R" and "mode R = RGB"
    and "getbbox (width R) (height R) (\<lambda>x y. alpha_at R x y \<noteq> 0) = None"
    and "getbbox (width R) (height R) (\<lambda>x y. rgb_at R x y \<noteq> (255, 255, 255)) = None \<or>
         getbbox (width R) (height R) (\<lambda>x y. rgb_at R x y \<noteq> (255, 255, 255)) =
           Some (0, 0, width R, height R)"
  shows "width (autocrop_auto R) = width R \<and> height (autocrop_auto R) = height R \<and>
         (\<forall>x y. rgba_at (autocrop_auto R) x y = rgba_at R x y)"
proof -
  define R' where "R' = autocrop_auto R"
  have aw: "autocrop_white R (255, 255, 255) = Inr R'"
    unfolding R'_def by (rule autocrop_auto_alpha_None [OF assms(1) assms(3)])
  from autocrop_white_loadable [OF assms(1), of "(255, 255, 255)"] aw
  have p: "mode R' = RGB" "transparency R' = transparency R"
    and q: "(\<exists>l u r b. getbbox (width R) (height R) (\<lambda>x y. rgb_at R x y \<noteq> (255, 255, 255)) =
                 Some (l, u, r, b) \<and>
                width R' = r - l \<and> height R' = b - u \<and>
                (\<forall>x y. rgb_at R' x y = rgb_at R (x + l) (y + u))) \<or>
            (getbbox (width R) (height R) (\<lambda>x y. rgb_at R x y \<noteq> (255, 255, 255)) = None \<and>
                width R' = width R \<and> height R' = height R \<and>
                (\<forall>x y. rgb_at R' x y = rgb_at R x y))"
    by auto
  from q assms(4) have s: "width R' = width R" "height R' = height R"
    and r: "\<forall>x y. rgb_at R' x y = rgb_at R x y"
    by auto
  have "\<And>x y. alpha_at R' x y = alpha_at R x y"
    using p r assms(2) by (simp add: alpha_at_no_band)
  then have "\<forall>x y. rgba_at R' x y = rgba_at R x y"
    using r by (simp add: rgba_at_def)
  then show ?thesis using s unfolding R'_def by simp
qed

lemma autocrop_auto_shape:
  assumes "well_formed im"
  shows "\<not> loadable (autocrop_auto im) \<or>
         (loadable (autocrop_auto im) \<and>
          getbbox (width (autocrop_auto im)) (height (autocrop_auto im))
            (\<lambda>x y. alpha_at (autocrop_auto im) x y \<noteq> 0) =
          Some (0, 0, width (autocrop_auto im), height (autocrop_auto im))) \<or>
         (loadable (autocrop_auto im) \<and> mode (autocrop_auto im) = RGB \<and>
          getbbox (width (autocrop_auto im)) (height (autocrop_auto im))
            (\<lambda>x y. alpha_at (autocrop_auto im) x y \<noteq> 0) = None \<and>
          (getbbox (width (autocrop_auto im)) (height (autocrop_auto im))
             (\<lambda>x y. rgb_at (autocrop_auto im) x y \<noteq> (255, 255, 255)) = None \<or>
           getbbox (width (autocrop_auto im)) (height (autocrop_auto im))
             (\<lambda>x y. rgb_at (autocrop_auto im) x y \<noteq> (255, 255, 255)) =
           Some (0, 0, width (autocrop_auto im), height (autocrop_auto im))))"
proof (cases "loadable im")
  case False
  then show ?thesis by (simp add: autocrop_auto_not_loadable)
next
  case ld: True
  define R where "R = autocrop_auto im"
  show ?thesis
  proof (cases "getbbox (width im) (height im) (\<lambda>x y. alpha_at im x y \<noteq> 0)")
    case (Some bx)
    obtain l u r b where bx: "bx = (l, u, r, b)" by (cases bx) auto
    have g: "getbbox (width im) (height im) (\<lambda>x y. alpha_at im x y \<noteq> 0) = Some (l, u, r, b)"
      using Some bx by simp
    note a = autocrop_auto_alpha_Some [OF ld g]
    have "getbbox (r - l) (b - u) (\<lambda>x y. alpha_at im (x + l) (y + u) \<noteq> 0) =
          Some (0, 0, r - l, b - u)"
      by (rule getbbox_tight [OF g])
    then show ?thesis using a by simp
  next
    case None
    then have zero: "\<And>x y. x < width im \<Longrightarrow> y < height im \<Longrightarrow> alpha_at im x y = 0"
      by (simp add: getbbox_None_iff)
    have aw: "autocrop_white im (255, 255, 255) = Inr R"
      unfolding R_def by (rule autocrop_auto_alpha_None [OF ld None])
    from autocrop_white_loadable [OF ld, of "(255, 255, 255)"] aw
    have p: "loadable R" "mode R = RGB" "transparency R = transparency im"
      and q: "(\<exists>l u r b. getbbox (width im) (height im) (\<lambda>x y. rgb_at im x y \<noteq> (255, 255, 255)) =
                 Some (l, u, r, b) \<and>
                width R = r - l \<and> height R = b - u \<and>
                (\<forall>x y. rgb_at R x y = rgb_at im (x + l) (y + u))) \<or>
            (getbbox (width im) (height im) (\<lambda>x y. rgb_at im x y \<noteq> (255, 255, 255)) = None \<and>
                width R = width im \<and> height R = height im \<and>
                (\<forall>x y. rgb_at R x y = rgb_at im x y))"
      by auto
    have aR: "\<And>x y. alpha_at R x y = (if transparency im = Some (rgb_at R x y) then 0 else 255)"
      using p by (simp add: alpha_at_no_band)
    have inside: "\<And>x y. x < width R \<Longrightarrow> y < height R \<Longrightarrow>
        \<exists>x' y'. x' < width im \<and> y' < height im \<and> rgb_at R x y = rgb_at im x' y'"
    proof -
      fix x y assume xy: "x < width R" "y < height R"
      from q show "\<exists>x' y'. x' < width im \<and> y' < height im \<and> rgb_at R x y = rgb_at im x' y'"
      proof
        assume "\<exists>l u r b. getbbox (width im) (height im) (\<lambda>x y. rgb_at im x y \<noteq> (255, 255, 255)) =
                 Some (l, u, r, b) \<and>
                width R = r - l \<and> height R = b - u \<and>
                (\<forall>x y. rgb_at R x y = rgb_at im (x + l) (y + u))"
        then obtain l u r b where
          g: "getbbox (width im) (height im) (\<lambda>x y. rgb_at im x y \<noteq> (255, 255, 255)) =
                 Some (l, u, r, b)"
          and s: "width R = r - l" "height R = b - u"
          and e: "\<forall>x y. rgb_at R x y = rgb_at im (x + l) (y + u)"
          by blast
        from getbbox_SomeD [OF g] have "r \<le> width im" "b \<le> height im" by auto
        then have "x + l < width im" "y + u < height im" using xy s by auto
        then show ?thesis using e by blast
      next
        assume "getbbox (width im) (height im) (\<lambda>x y. rgb_at im x y \<noteq> (255, 255, 255)) = None \<and>
                width R = width im \<and> height R = height im \<and>
                (\<forall>x y. rgb_at R x y = rgb_at im x y)"
        then show ?thesis using xy by auto
      qed
    qed
    have wbox: "getbbox (width R) (height R) (\<lambda>x y. rgb_at R x y \<noteq> (255, 255, 255)) = None \<or>
           getbbox (width R) (height R) (\<lambda>x y. rgb_at R x y \<noteq> (255, 255, 255)) =
           Some (0, 0, width R, height R)"
      using q
    proof
      assume "\<exists>l u r b. getbbox (width im) (height im) (\<lambda>x y. rgb_at im x y \<noteq> (255, 255, 255)) =
                 Some (l, u, r, b) \<and>
                width R = r - l \<and> height R = b - u \<and>
                (\<forall>x y. rgb_at R x y = rgb_at im (x + l) (y + u))"
      then obtain l u r b where
          g: "getbbox (width im) (height im) (\<lambda>x y. rgb_at im x y \<noteq> (255, 255, 255)) =
                 Some (l, u, r, b)"
          and s: "width R = r - l" "height R = b - u"
          and e: "\<forall>x y. rgb_at R x y = rgb_at im (x + l) (y + u)"
        by blast
      have "getbbox (r - l) (b - u) (\<lambda>x y. rgb_at im (x + l) (y + u) \<noteq> (255, 255, 255)) =
            Some (0, 0, r - l, b - u)"
        by (rule getbbox_tight [OF g])
      then show ?thesis using s e by simp
    next
      assume "getbbox (width im) (height im) (\<lambda>x y. rgb_at im x y \<noteq> (255, 255, 255)) = None \<and>
                width R = width im \<and> height R = height im \<and>
                (\<forall>x y. rgb_at R x y = rgb_at im x y)"
      then show ?thesis by simp
    qed
    show ?thesis
    proof (cases "transparency im")
      case tn: None
      have op: "\<And>x y. alpha_at R x y = 255" using aR tn by simp
      show ?thesis
      proof (cases "0 < width R \<and> 0 < height R")
        case True
        have "getbbox (width R) (height R) (\<lambda>x y. alpha_at R x y \<noteq> 0) =
              Some (0, 0, width R, height R)"
          using True by (intro getbbox_full) (simp_all add: op)
        then show ?thesis using p unfolding R_def by simp
      next
        case False
        then have e: "\<And>nz. getbbox (width R) (height R) nz = None"
          by (auto simp: getbbox_None_iff)
        show ?thesis using p e unfolding R_def by simp
      qed
    next
      case (Some k)
      with assms have nb: "mode im \<noteq> RGBA" "mode im \<noteq> LA"
        by (auto simp: well_formed_def split: if_splits)
      have key: "\<And>x y. x < width im \<Longrightarrow> y < height im \<Longrightarrow> rgb_at im x y = k"
      proof -
        fix x y assume "x < width im" "y < height im"
        from zero [OF this] show "rgb_at im x y = k"
          using Some by (simp add: alpha_at_no_band [OF nb] split: if_splits)
      qed
      have "\<And>x y. x < width R \<Longrightarrow> y < height R \<Longrightarrow> alpha_at R x y = 0"
      proof -
        fix x y assume xy: "x < width R" "y < height R"
        from inside [OF xy] key have "rgb_at R x y = k" by auto
        then show "alpha_at R x y = 0" using aR Some by simp
      qed
      then have "getbbox (width R) (height R) (\<lambda>x y. alpha_at R x y \<noteq> 0) = None"
        by (simp add: getbbox_None_iff)
      then show ?thesis using p wbox unfolding R_def by simp
    qed
  qed
qed

text \<open>
  C9. Auto-crop is idempotent. For every image as the decoders give it (a transparency
  key in \<open>info\<close> only in a mode without an alpha band), applying \<open>autocrop_auto\<close>
  to its own result gives an image of the same size with the same pixels: the second
  application finds the whole image as its bounding box, or none, and crops nothing.
\<close>

theorem autocrop_auto_idempotent:
  assumes "well_formed im"
  shows "im_size (autocrop_auto (autocrop_auto im)) = im_size (autocrop_auto im) \<and>
         pixels (autocrop_auto (autocrop_auto im)) = pixels (autocrop_auto im)"
proof -
  define R where "R = autocrop_auto im"
  have shape: "\<not> loadable R \<or>
         (loadable R \<and>
          getbbox (width R) (height R) (\<lambda>x y. alpha_at R x y \<noteq> 0) =
          Some (0, 0, width R, height R)) \<or>
         (loadable R \<and> mode R = RGB \<and>
          getbbox (width R) (height R) (\<lambda>x y. alpha_at R x y \<noteq> 0) = None \<and>
          (getbbox (width R) (height R) (\<lambda>x y. rgb_at R x y \<noteq> (255, 255, 255)) = None \<or>
           getbbox (width R) (height R) (\<lambda>x y. rgb_at R x y \<noteq> (255, 255, 255)) =
           Some (0, 0, width R, height R)))"
    unfolding R_def by (rule autocrop_auto_shape [OF assms])
  have "width (autocrop_auto R) = width R \<and> height (autocrop_auto R) = height R \<and>
         (\<forall>x y. rgba_at (autocrop_auto R) x y = rgba_at R x y)"
    using shape
  proof (elim disjE conjE)
    assume "\<not> loadable R"
    then show ?thesis by (simp add: autocrop_auto_not_loadable)
  next
    assume "loadable R"
      and "getbbox (width R) (height R) (\<lambda>x y. alpha_at R x y \<noteq> 0) =
          Some (0, 0, width R, height R)"
    then show ?thesis by (rule autocrop_auto_keeps_full)
  next
    assume "loadable R" and "mode R = RGB"
      and "getbbox (width R) (height R) (\<lambda>x y. alpha_at R x y \<noteq> 0) = None"
      and "getbbox (width R) (height R) (\<lambda>x y. rgb_at R x y \<noteq> (255, 255, 255)) = None"
    then show ?thesis by (intro autocrop_auto_keeps_white_cropped) simp_all
  next
    assume "loadable R" and "mode R = RGB"
      and "getbbox (width R) (height R) (\<lambda>x y. alpha_at R x y \<noteq> 0) = None"
      and "getbbox (width R) (height R) (\<lambda>x y. rgb_at R x y \<noteq> (255, 255, 255)) =
           Some (0, 0, width R, height R)"
    then show ?thesis by (intro autocrop_auto_keeps_white_cropped) simp_all
  qed
  then show ?thesis
    unfolding R_def by (simp add: im_size_def pixels_def)
qed

theorem autocrop_auto_idempotent_witness:
  "well_formed grey_alpha \<and>
   im_size grey_alpha = (2, 2) \<and> im_size (autocrop_auto grey_alpha) = (1, 2) \<and>
   im_size (autocrop_auto (autocrop_auto grey_alpha)) = im_size (autocrop_auto grey_alpha) \<and>
   pixels (autocrop_auto (autocrop_auto grey_alpha)) = pixels (autocrop_auto grey_alpha)"
proof -
  have h: "well_formed grey_alpha" by code_simp
  have s: "im_size grey_alpha = (2, 2)" "im_size (autocrop_auto grey_alpha) = (1, 2)"
    by code_simp+
  show ?thesis using h s autocrop_auto_idempotent [OF h] by simp
qed


text \<open>
  What the example above shows holds in general: an image without alpha (no alpha band,
  no transparency key) of positive size comes back from \<open>autocrop_auto\<close> with its size
  and its pixels, whatever its borders are.
\<close>

lemma autocrop_auto_opaque_unchanged:
  assumes "loadable im" and "mode im \<noteq> RGBA" and "mode im \<noteq> LA"
    and "transparency im = None" and "0 < width im" and "0 < height im"
  shows "im_size (autocrop_auto im) = im_size im \<and> pixels (autocrop_auto im) = pixels im"
proof -
  have "\<And>x y. alpha_at im x y = 255"
    using assms by (simp add: alpha_at_no_band)
  then have "getbbox (width im) (height im) (\<lambda>x y. alpha_at im x y \<noteq> 0) =
      Some (0, 0, width im, height im)"
    using assms(5) assms(6) by (intro getbbox_full) simp_all
  from autocrop_auto_keeps_full [OF assms(1) this]
  show ?thesis by (simp add: im_size_def pixels_def)
qed

section \<open>Fit mode\<close>








end
